theory Spec2Isabelle
  imports Main "HOL-Library.Word"
begin

unbundle bit_operations_syntax

section \<open>Data model\<close>

text \<open>
  The decoder of \<^verbatim>\<open>02-multi-instruction-decoder.go\<close> works on Go \<^verbatim>\<open>byte\<close>
  values (8-bit words), a slice of them and an \<^verbatim>\<open>int\<close> cursor. Go's \<^verbatim>\<open>int\<close> is
  modelled by \<^typ>\<open>int\<close>: the cursor never leaves the range \<open>0 .. len(Data)\<close>, far from
  the 64-bit limits.
\<close>

type_synonym byte = "8 word"
type_synonym uint16 = "16 word"

record DecoderParams =
  Data :: "byte list"
  Pointer :: int
  DecodedInstructions :: "string list"

text \<open>
  A \<^verbatim>\<open>DecoderState\<close> is a function value in the source; only three functions are
  ever stored in it, so it is the enumeration of those three. The \<^verbatim>\<open>nil\<close> state is
  \<^const>\<open>None\<close> of \<open>DecoderState option\<close>.
\<close>

datatype DecoderState =
  St_InitialState
  | St_RegAndRegOrMemState
  | St_ImmediateToRegisterMovState

text \<open>
  Every way a call can fail: an \<^verbatim>\<open>error\<close> value built by \<^verbatim>\<open>fmt.Errorf\<close> (which
  \<^verbatim>\<open>Decode\<close> turns into a panic carrying that message), and the run-time panic of an
  indexing expression \<^verbatim>\<open>s[i]\<close> with \<open>i\<close> outside \<open>0 ..< len(s)\<close>, which carries the
  index and the length.
\<close>

datatype error =
  Errorf string
  | IndexOutOfRange int nat

section \<open>The Go library functions the decoder calls\<close>

text \<open>Indexing a slice: \<^verbatim>\<open>s[i]\<close>.\<close>

definition index :: "byte list \<Rightarrow> int \<Rightarrow> error + byte" where
  "index s i =
     (if 0 \<le> i \<and> i < int (length s) then Inr (s ! nat i)
      else Inl (IndexOutOfRange i (length s)))"

text \<open>
  Indexing a map: a missing key gives the zero value of the element type, which is the
  empty string for \<^verbatim>\<open>map[byte]string\<close> and the \<^verbatim>\<open>nil\<close> map (on which every lookup
  gives the zero value again) for \<^verbatim>\<open>map[byte]map[byte]string\<close>.
\<close>

definition map_index :: "(byte \<rightharpoonup> string) \<Rightarrow> byte \<Rightarrow> string" where
  "map_index m k = (case m k of None \<Rightarrow> [] | Some v \<Rightarrow> v)"

definition map_index2 :: "(byte \<rightharpoonup> (byte \<rightharpoonup> string)) \<Rightarrow> byte \<Rightarrow> byte \<Rightarrow> string" where
  "map_index2 m k1 k2 = (case m k1 of None \<Rightarrow> [] | Some m' \<Rightarrow> map_index m' k2)"

text \<open>\<^verbatim>\<open>binary.BigEndian.Uint16([]byte{b0, b1})\<close>, that is \<^verbatim>\<open>uint16(b1) | uint16(b0)<<8\<close>.\<close>

definition BigEndian_Uint16 :: "byte \<Rightarrow> byte \<Rightarrow> uint16" where
  "BigEndian_Uint16 b0 b1 = ucast b1 OR push_bit 8 (ucast b0)"

text \<open>
  The verbs of \<^verbatim>\<open>fmt.Sprintf\<close> on unsigned integers: \<^verbatim>\<open>%d\<close> prints the decimal digits
  and \<^verbatim>\<open>%b\<close> the binary digits of the value, most significant first and with no
  leading zero.
\<close>

definition digit_char :: "nat \<Rightarrow> char" where
  "digit_char d = ''0123456789'' ! d"

fun fmt_d :: "nat \<Rightarrow> string" where
  "fmt_d n = (if n < 10 then [digit_char n] else fmt_d (n div 10) @ [digit_char (n mod 10)])"

fun fmt_b :: "nat \<Rightarrow> string" where
  "fmt_b n = (if n < 2 then [digit_char n] else fmt_b (n div 2) @ [digit_char (n mod 2)])"

declare fmt_d.simps [simp del] fmt_b.simps [simp del]

text \<open>Reading a digit string back, for stating what the printed text denotes.\<close>

definition digit_val :: "char \<Rightarrow> nat" where
  "digit_val c = of_char c - 48"

definition digits_value :: "nat \<Rightarrow> string \<Rightarrow> nat" where
  "digits_value base s = foldl (\<lambda>acc c. base * acc + digit_val c) 0 s"

section \<open>Lookup tables\<close>

definition RegisterNames :: "byte \<rightharpoonup> (byte \<rightharpoonup> string)" where
  "RegisterNames =
     [0b000 \<mapsto> [0 \<mapsto> ''al'', 1 \<mapsto> ''ax''],
      0b001 \<mapsto> [0 \<mapsto> ''cl'', 1 \<mapsto> ''cx''],
      0b010 \<mapsto> [0 \<mapsto> ''dl'', 1 \<mapsto> ''dx''],
      0b011 \<mapsto> [0 \<mapsto> ''bl'', 1 \<mapsto> ''bx''],
      0b100 \<mapsto> [0 \<mapsto> ''ah'', 1 \<mapsto> ''sp''],
      0b101 \<mapsto> [0 \<mapsto> ''ch'', 1 \<mapsto> ''bp''],
      0b110 \<mapsto> [0 \<mapsto> ''dh'', 1 \<mapsto> ''si''],
      0b111 \<mapsto> [0 \<mapsto> ''bh'', 1 \<mapsto> ''di'']]"

definition MemoryEquations :: "byte \<rightharpoonup> string" where
  "MemoryEquations =
     [0b000 \<mapsto> ''bx + si'',
      0b001 \<mapsto> ''bx + di'',
      0b010 \<mapsto> ''bp + si'',
      0b011 \<mapsto> ''bp + di'',
      0b100 \<mapsto> ''si'',
      0b101 \<mapsto> ''di'',
      0b110 \<mapsto> ''bp'',
      0b111 \<mapsto> ''bx'']"

section \<open>Field extraction\<close>

text \<open>
  The shifts and masks of \<^verbatim>\<open>RegAndRegOrMemState\<close> (and, unchanged, of the earlier
  \<^verbatim>\<open>RegisterToRegisterMovState\<close>) on the two header bytes.
\<close>

definition destinationBit_of :: "byte \<Rightarrow> byte" where
  "destinationBit_of byte1 = drop_bit 1 byte1 AND 0b1"

definition wideBit_of :: "byte \<Rightarrow> byte" where
  "wideBit_of byte1 = drop_bit 0 byte1 AND 0b1"

definition mode_of :: "byte \<Rightarrow> byte" where
  "mode_of byte2 = drop_bit 6 byte2 AND 0b11"

definition reg_of :: "byte \<Rightarrow> byte" where
  "reg_of byte2 = drop_bit 3 byte2 AND 0b111"

definition rm_of :: "byte \<Rightarrow> byte" where
  "rm_of byte2 = drop_bit 0 byte2 AND 0b111"

section \<open>The multi-variant decoder\<close>

text \<open>
  A state function takes the parameters and returns the next state (\<^const>\<open>None\<close> for
  \<^verbatim>\<open>nil\<close>) with the parameters as it left them, or fails. The source mutates
  \<^verbatim>\<open>*params\<close> in place; here the updated record is returned.
\<close>

type_synonym state_result = "error + (DecoderState option \<times> DecoderParams)"

definition InitialState :: "DecoderParams \<Rightarrow> state_result" where
  "InitialState params =
     (let bytesLeft = int (length (Data params)) - Pointer params in
      if bytesLeft = 0 then Inr (None, params)
      else if bytesLeft = 1 then Inl (Errorf ''Trailing byte found'')
      else
        case index (Data params) (Pointer params) of
          Inl e \<Rightarrow> Inl e
        | Inr nextByte \<Rightarrow>
            if drop_bit 2 nextByte XOR 0b100010 = 0 then
              Inr (Some St_RegAndRegOrMemState, params)
            else if drop_bit 4 nextByte XOR 0b1011 = 0 then
              Inr (Some St_ImmediateToRegisterMovState, params)
            else Inl (Errorf (''Unknown opcode: '' @ fmt_b (unat nextByte))))"

definition MemoryMode ::
  "byte \<Rightarrow> byte \<Rightarrow> byte \<Rightarrow> byte \<Rightarrow> DecoderParams \<Rightarrow> error + DecoderParams" where
  "MemoryMode destinationBit wideBit reg rm params =
     (let location1 = ''['' @ map_index MemoryEquations rm @ '']'';
          location2 = map_index2 RegisterNames reg wideBit;
          (destName, srcName) =
            (if destinationBit = 1 then (location2, location1) else (location1, location2))
      in Inr (params\<lparr>
           DecodedInstructions :=
             DecodedInstructions params @ [''mov '' @ destName @ '', '' @ srcName],
           Pointer := Pointer params + 2\<rparr>))"

definition MemoryMode8BitDisplace ::
  "byte \<Rightarrow> byte \<Rightarrow> byte \<Rightarrow> byte \<Rightarrow> DecoderParams \<Rightarrow> error + DecoderParams" where
  "MemoryMode8BitDisplace destinationBit wideBit reg rm params =
     (case index (Data params) (Pointer params + 2) of
        Inl e \<Rightarrow> Inl e
      | Inr lo \<Rightarrow>
          let data = BigEndian_Uint16 0b0 lo;
              location1 =
                ''['' @ map_index MemoryEquations rm @ '' + '' @ fmt_d (unat data) @ '']'';
              location2 = map_index2 RegisterNames reg wideBit;
              (destName, srcName) =
                (if destinationBit = 1 then (location2, location1) else (location1, location2))
          in Inr (params\<lparr>
               DecodedInstructions :=
                 DecodedInstructions params @ [''mov '' @ destName @ '', '' @ srcName],
               Pointer := Pointer params + 3\<rparr>))"

definition MemoryMode16BitDisplace ::
  "byte \<Rightarrow> byte \<Rightarrow> byte \<Rightarrow> byte \<Rightarrow> DecoderParams \<Rightarrow> error + DecoderParams" where
  "MemoryMode16BitDisplace destinationBit wideBit reg rm params =
     (case index (Data params) (Pointer params + 3) of
        Inl e \<Rightarrow> Inl e
      | Inr hi \<Rightarrow>
          case index (Data params) (Pointer params + 2) of
            Inl e \<Rightarrow> Inl e
          | Inr lo \<Rightarrow>
              let data = BigEndian_Uint16 hi lo;
                  location1 =
                    ''['' @ map_index MemoryEquations rm @ '' + '' @ fmt_d (unat data) @ '']'';
                  location2 = map_index2 RegisterNames reg wideBit;
                  (destName, srcName) =
                    (if destinationBit = 1 then (location2, location1)
                     else (location1, location2))
              in Inr (params\<lparr>
                   DecodedInstructions :=
                     DecodedInstructions params @ [''mov '' @ destName @ '', '' @ srcName],
                   Pointer := Pointer params + 4\<rparr>))"

definition RegisterMode ::
  "byte \<Rightarrow> byte \<Rightarrow> byte \<Rightarrow> byte \<Rightarrow> DecoderParams \<Rightarrow> error + DecoderParams" where
  "RegisterMode destinationBit wideBit reg rm params =
     (let (destRegName, srcRegName) =
            (if destinationBit = 1 then
               (map_index2 RegisterNames reg wideBit, map_index2 RegisterNames rm wideBit)
             else
               (map_index2 RegisterNames rm wideBit, map_index2 RegisterNames reg wideBit))
      in Inr (params\<lparr>
           DecodedInstructions :=
             DecodedInstructions params @ [''mov '' @ destRegName @ '', '' @ srcRegName],
           Pointer := Pointer params + 2\<rparr>))"

text \<open>
  The resolvers return nothing in the source; \<^verbatim>\<open>RegAndRegOrMemState\<close> goes on to
  \<^verbatim>\<open>return InitialState, nil\<close> when the call has not panicked.
\<close>

definition to_InitialState :: "error + DecoderParams \<Rightarrow> state_result" where
  "to_InitialState r =
     (case r of Inl e \<Rightarrow> Inl e | Inr params' \<Rightarrow> Inr (Some St_InitialState, params'))"

definition RegAndRegOrMemState :: "DecoderParams \<Rightarrow> state_result" where
  "RegAndRegOrMemState params =
     (case index (Data params) (Pointer params) of
        Inl e \<Rightarrow> Inl e
      | Inr byte1 \<Rightarrow>
          case index (Data params) (Pointer params + 1) of
            Inl e \<Rightarrow> Inl e
          | Inr byte2 \<Rightarrow>
              let destinationBit = destinationBit_of byte1;
                  wideBit = wideBit_of byte1;
                  mode = mode_of byte2;
                  reg = reg_of byte2;
                  rm = rm_of byte2
              in if mode = 0b00 then
                   to_InitialState (MemoryMode destinationBit wideBit reg rm params)
                 else if mode = 0b01 then
                   to_InitialState (MemoryMode8BitDisplace destinationBit wideBit reg rm params)
                 else if mode = 0b10 then
                   to_InitialState (MemoryMode16BitDisplace destinationBit wideBit reg rm params)
                 else if mode = 0b11 then
                   to_InitialState (RegisterMode destinationBit wideBit reg rm params)
                 else Inr (None, params))"

definition ImmediateToRegisterMovState :: "DecoderParams \<Rightarrow> state_result" where
  "ImmediateToRegisterMovState params =
     (case index (Data params) (Pointer params) of
        Inl e \<Rightarrow> Inl e
      | Inr byte1 \<Rightarrow>
          let wideBit = drop_bit 3 byte1 AND 0b1;
              reg = drop_bit 0 byte1 AND 0b111
          in if wideBit = 1 then
               case index (Data params) (Pointer params + 2) of
                 Inl e \<Rightarrow> Inl e
               | Inr hi \<Rightarrow>
                   case index (Data params) (Pointer params + 1) of
                     Inl e \<Rightarrow> Inl e
                   | Inr lo \<Rightarrow>
                       let data = BigEndian_Uint16 hi lo;
                           destRegName = map_index2 RegisterNames reg wideBit
                       in Inr (Some St_InitialState, params\<lparr>
                            DecodedInstructions :=
                              DecodedInstructions params
                                @ [''mov '' @ destRegName @ '', '' @ fmt_d (unat data)],
                            Pointer := Pointer params + 3\<rparr>)
             else
               case index (Data params) (Pointer params + 1) of
                 Inl e \<Rightarrow> Inl e
               | Inr lo \<Rightarrow>
                   let data = BigEndian_Uint16 0b0 lo;
                       destRegName = map_index2 RegisterNames reg wideBit
                   in Inr (Some St_InitialState, params\<lparr>
                        DecodedInstructions :=
                          DecodedInstructions params
                            @ [''mov '' @ destRegName @ '', '' @ fmt_d (unat data)],
                        Pointer := Pointer params + 2\<rparr>))"

text \<open>Calling the function a state stands for: \<^verbatim>\<open>state(&params)\<close>.\<close>

definition call_state :: "DecoderState \<Rightarrow> DecoderParams \<Rightarrow> state_result" where
  "call_state state params =
     (case state of
        St_InitialState \<Rightarrow> InitialState params
      | St_RegAndRegOrMemState \<Rightarrow> RegAndRegOrMemState params
      | St_ImmediateToRegisterMovState \<Rightarrow> ImmediateToRegisterMovState params)"

text \<open>
  The loop \<^verbatim>\<open>for state != nil\<close> of \<^verbatim>\<open>Decode\<close>. Nothing in its form bounds the number
  of rounds, so it is a partial function: \<^const>\<open>None\<close> stands for a loop that never
  ends, \<open>Some (Inl e)\<close> for a panic and \<open>Some (Inr lines)\<close> for a normal return.
\<close>

partial_function (option) Decode_loop ::
  "DecoderState option \<Rightarrow> DecoderParams \<Rightarrow> (error + string list) option" where
  "Decode_loop state params =
     (case state of
        None \<Rightarrow> Some (Inr (DecodedInstructions params))
      | Some st \<Rightarrow>
          (case call_state st params of
             Inl err \<Rightarrow> Some (Inl err)
           | Inr (state', params') \<Rightarrow> Decode_loop state' params'))"

definition Decode :: "byte list \<Rightarrow> (error + string list) option" where
  "Decode input =
     Decode_loop (Some St_InitialState)
       \<lparr>Data = input, Pointer = 0, DecodedInstructions = []\<rparr>"

declare Decode_loop.simps [code]


section \<open>The earlier register-only decoder\<close>

text \<open>
  The second program of the file decodes register-to-register moves only. Its
  \<^verbatim>\<open>RegisterNames\<close> table and \<^verbatim>\<open>DecoderParams\<close> are those of the first program, token
  for token, so they are shared here; its functions that carry a name of the first
  program are suffixed with \<open>_regonly\<close>.
\<close>

datatype DecoderState_regonly =
  St_InitialState_regonly
  | St_RegisterToRegisterMovState

type_synonym state_result_regonly =
  "error + (DecoderState_regonly option \<times> DecoderParams)"

definition InitialState_regonly :: "DecoderParams \<Rightarrow> state_result_regonly" where
  "InitialState_regonly params =
     (let bytesLeft = int (length (Data params)) - Pointer params in
      if bytesLeft = 0 then Inr (None, params)
      else if bytesLeft = 1 then Inl (Errorf ''Trailing byte found'')
      else Inr (Some St_RegisterToRegisterMovState, params))"

definition RegisterToRegisterMovState :: "DecoderParams \<Rightarrow> state_result_regonly" where
  "RegisterToRegisterMovState params =
     (case index (Data params) (Pointer params) of
        Inl e \<Rightarrow> Inl e
      | Inr byte1 \<Rightarrow>
          case index (Data params) (Pointer params + 1) of
            Inl e \<Rightarrow> Inl e
          | Inr byte2 \<Rightarrow>
              let opcode = drop_bit 2 byte1 in
              if opcode \<noteq> 0b100010 then
                Inl (Errorf (''Unexpected opcode: '' @ fmt_b (unat opcode)))
              else
                let destinationBit = destinationBit_of byte1;
                    wideBit = wideBit_of byte1;
                    reg = reg_of byte2;
                    rm = rm_of byte2;
                    (destRegName, srcRegName) =
                      (if destinationBit = 1 then
                         (map_index2 RegisterNames reg wideBit,
                          map_index2 RegisterNames rm wideBit)
                       else
                         (map_index2 RegisterNames rm wideBit,
                          map_index2 RegisterNames reg wideBit))
                in Inr (Some St_InitialState_regonly, params\<lparr>
                     DecodedInstructions :=
                       DecodedInstructions params
                         @ [''mov '' @ destRegName @ '', '' @ srcRegName],
                     Pointer := Pointer params + 2\<rparr>))"

definition call_state_regonly ::
  "DecoderState_regonly \<Rightarrow> DecoderParams \<Rightarrow> state_result_regonly" where
  "call_state_regonly state params =
     (case state of
        St_InitialState_regonly \<Rightarrow> InitialState_regonly params
      | St_RegisterToRegisterMovState \<Rightarrow> RegisterToRegisterMovState params)"

partial_function (option) Decode_loop_regonly ::
  "DecoderState_regonly option \<Rightarrow> DecoderParams \<Rightarrow> (error + string list) option" where
  "Decode_loop_regonly state params =
     (case state of
        None \<Rightarrow> Some (Inr (DecodedInstructions params))
      | Some st \<Rightarrow>
          (case call_state_regonly st params of
             Inl err \<Rightarrow> Some (Inl err)
           | Inr (state', params') \<Rightarrow> Decode_loop_regonly state' params'))"

declare Decode_loop_regonly.simps [code]

definition Decode_regonly :: "byte list \<Rightarrow> (error + string list) option" where
  "Decode_regonly input =
     Decode_loop_regonly (Some St_InitialState_regonly)
       \<lparr>Data = input, Pointer = 0, DecodedInstructions = []\<rparr>"

section \<open>The documented byte layout\<close>

text \<open>
  The header comment of the source draws the two header bytes as
  \<^verbatim>\<open>|Opcode (6)|D|W|\<close> and \<^verbatim>\<open>|MOD (2)|REG (3)|R/M (3)|\<close>. \<open>encode_fields\<close> writes
  six field values into that layout; no function of the source does this, it is the
  reference the extraction is compared with.
\<close>

definition encode_fields ::
  "byte \<Rightarrow> byte \<Rightarrow> byte \<Rightarrow> byte \<Rightarrow> byte \<Rightarrow> byte \<Rightarrow> byte \<times> byte" where
  "encode_fields opcode d w mode reg rm =
     (push_bit 2 opcode OR push_bit 1 d OR w,
      push_bit 6 mode OR push_bit 3 reg OR rm)"

text \<open>The byte stream of a list of two-byte instructions.\<close>

definition encode_pairs :: "(byte \<times> byte) list \<Rightarrow> byte list" where
  "encode_pairs instrs = concat (map (\<lambda>(byte1, byte2). [byte1, byte2]) instrs)"

section \<open>Evaluating the decoder\<close>

lemmas decoder_defs =
  Decode_def call_state_def InitialState_def index_def RegAndRegOrMemState_def
  destinationBit_of_def wideBit_of_def mode_of_def reg_of_def rm_of_def
  to_InitialState_def MemoryMode_def MemoryMode8BitDisplace_def
  MemoryMode16BitDisplace_def RegisterMode_def ImmediateToRegisterMovState_def
  map_index_def map_index2_def RegisterNames_def MemoryEquations_def
  BigEndian_Uint16_def digit_char_def

lemma Decode_loop_None:
  "Decode_loop None params = Some (Inr (DecodedInstructions params))"
  by (subst Decode_loop.simps) simp

lemma Decode_loop_Some:
  "Decode_loop (Some st) params =
     (case call_state st params of
        Inl err \<Rightarrow> Some (Inl err)
      | Inr (state', params') \<Rightarrow> Decode_loop state' params')"
  by (subst Decode_loop.simps) simp

section \<open>Facts about the library functions\<close>

lemma index_Inr_iff:
  "index s i = Inr b \<longleftrightarrow> 0 \<le> i \<and> i < int (length s) \<and> b = s ! nat i"
  by (auto simp: index_def)

lemma index_in_range:
  "0 \<le> i \<Longrightarrow> i < int (length s) \<Longrightarrow> index s i = Inr (s ! nat i)"
  by (simp add: index_def)

lemma unat_byte_less: "unat (b :: byte) < 256"
  using unsigned_less [of b, where ?'a = nat] by simp

lemma or_push_bit_8:
  fixes a b :: nat
  assumes "a < 256"
  shows "a OR push_bit 8 b = a + 256 * b"
proof -
  from assms have a: "take_bit 8 a = a" by (simp add: take_bit_nat_eq_self)
  have "\<not> bit a n \<or> \<not> bit (push_bit 8 b) n" for n
  proof (cases "n < 8")
    case True
    then show ?thesis by (simp add: bit_push_bit_iff)
  next
    case False
    then have "\<not> bit (take_bit 8 a) n" by (simp add: bit_take_bit_iff)
    then show ?thesis by (simp add: a)
  qed
  then have "a + push_bit 8 b = a OR push_bit 8 b"
    by (rule disjunctive_add)
  then show ?thesis by (simp add: push_bit_eq_mult)
qed

text \<open>The two bytes handed to \<^verbatim>\<open>Uint16\<close> are the high and the low half of the result.\<close>

lemma unat_BigEndian_Uint16:
  "unat (BigEndian_Uint16 hi lo) = unat lo + 256 * unat hi"
proof -
  have lo: "unat (ucast lo :: uint16) = unat lo"
    using unat_byte_less [of lo] by (simp add: unsigned_ucast_eq take_bit_nat_eq_self)
  have hi: "unat (ucast hi :: uint16) = unat hi"
    using unat_byte_less [of hi] by (simp add: unsigned_ucast_eq take_bit_nat_eq_self)
  have "push_bit 8 (unat hi) < 2 ^ 16"
    using unat_byte_less [of hi] by (simp add: push_bit_eq_mult)
  then have hi': "unat (push_bit 8 (ucast hi :: uint16)) = push_bit 8 (unat hi)"
    by (simp add: unsigned_push_bit_eq hi take_bit_nat_eq_self)
  show ?thesis
    unfolding BigEndian_Uint16_def
    by (simp only: unsigned_or_eq lo hi' or_push_bit_8 [OF unat_byte_less])
qed

lemma digit_val_digit_char: "d < 10 \<Longrightarrow> digit_val (digit_char d) = d"
proof -
  assume "d < 10"
  then have "d \<in> {0, 1, 2, 3, 4, 5, 6, 7, 8, 9}" by auto
  then show ?thesis
    by (auto simp: digit_val_def digit_char_def)
qed

lemma digits_value_snoc:
  "digits_value base (s @ [c]) = base * digits_value base s + digit_val c"
  by (simp add: digits_value_def)

lemma digits_value_single: "digits_value base [c] = digit_val c"
  by (simp add: digits_value_def)

text \<open>The text printed by \<^verbatim>\<open>%d\<close> and by \<^verbatim>\<open>%b\<close> reads back as the number printed.\<close>

lemma fmt_d_value: "digits_value 10 (fmt_d n) = n"
proof (induction n rule: fmt_d.induct)
  case (1 n)
  show ?case
  proof (cases "n < 10")
    case True
    then show ?thesis
      by (subst fmt_d.simps) (simp add: digits_value_single digit_val_digit_char)
  next
    case False
    with "1" have "digits_value 10 (fmt_d (n div 10)) = n div 10" by simp
    with False show ?thesis
      by (subst fmt_d.simps) (simp add: digits_value_snoc digit_val_digit_char)
  qed
qed

lemma fmt_b_value: "digits_value 2 (fmt_b n) = n"
proof (induction n rule: fmt_b.induct)
  case (1 n)
  show ?case
  proof (cases "n < 2")
    case True
    then show ?thesis
      by (subst fmt_b.simps) (simp add: digits_value_single digit_val_digit_char)
  next
    case False
    with "1" have "digits_value 2 (fmt_b (n div 2)) = n div 2" by simp
    with False show ?thesis
      by (subst fmt_b.simps) (simp add: digits_value_snoc digit_val_digit_char)
  qed
qed

section \<open>Facts about the extracted fields\<close>

lemma byte_and_1_cases:
  fixes x :: byte
  shows "x AND 1 = 0 \<or> x AND 1 = 1"
  by (cases "even x") (simp_all add: and_one_eq mod_2_eq_odd)

lemma byte_and_3_cases:
  fixes x :: byte
  shows "x AND 3 = 0 \<or> x AND 3 = 1 \<or> x AND 3 = 2 \<or> x AND 3 = 3"
proof -
  have "unat (x AND 3) \<le> unat (3 :: byte)"
    by (rule word_and_le1 [THEN word_le_nat_alt [THEN iffD1]])
  then have "unat (x AND 3) \<in> {0, 1, 2, 3}" by auto
  then show ?thesis
    by (auto simp: unat_eq_0 dest!: arg_cong [where f = "word_of_nat :: nat \<Rightarrow> byte"])
qed

lemma mode_of_cases:
  "mode_of b = 0 \<or> mode_of b = 1 \<or> mode_of b = 2 \<or> mode_of b = 3"
  unfolding mode_of_def using byte_and_3_cases by simp

lemma xor_eq_0_iff_byte: "(x :: byte) XOR c = 0 \<longleftrightarrow> x = c"
  by (metis xor.right_neutral xor_self_eq xor.assoc xor.commute)

lemma nat_less_numeral_cases: "(n::nat) < 8 \<longleftrightarrow> n \<in> {0, 1, 2, 3, 4, 5, 6, 7}"
  by (simp, arith)

lemma byte_masks: "(1::byte) = mask 1" "(3::byte) = mask 2" "(7::byte) = mask 3"
  by (simp_all add: mask_eq_exp_minus_1)

text \<open>Each header byte is the disjunction of its fields, shifted to their places.\<close>

lemma byte2_layout:
  fixes b :: byte
  shows "push_bit 6 (drop_bit 6 b AND 3) OR push_bit 3 (drop_bit 3 b AND 7) OR (drop_bit 0 b AND 7) = b"
  unfolding byte_masks
proof (rule bit_word_eqI)
  fix n
  assume "n < LENGTH(8)"
  then show "bit (push_bit 6 (drop_bit 6 b AND mask 2) OR push_bit 3 (drop_bit 3 b AND mask 3)
        OR (drop_bit 0 b AND mask 3)) n = bit b n"
    by (auto simp: bit_simps nat_less_numeral_cases)
qed

lemma byte1_layout:
  fixes b :: byte
  shows "push_bit 2 (drop_bit 2 b) OR push_bit 1 (drop_bit 1 b AND 1) OR (drop_bit 0 b AND 1) = b"
proof -
  have gen: "push_bit j (drop_bit j b) OR push_bit k (drop_bit k b AND mask k) OR (drop_bit 0 b AND mask k) = b"
    if kj: "k = 1" "j = 2" for j k :: nat
  proof (rule bit_word_eqI)
    fix n
    assume "n < LENGTH(8)"
    consider "n = 0" | "n = k" | "j \<le> n" using kj by arith
    then show "bit (push_bit j (drop_bit j b) OR push_bit k (drop_bit k b AND mask k)
        OR (drop_bit 0 b AND mask k)) n = bit b n"
    proof cases
      case 1
      with kj show ?thesis by (simp add: bit_simps)
    next
      case 2
      from kj have "0 < k" "k < j" "k < 8" by simp_all
      with 2 show ?thesis by (simp add: bit_simps)
    next
      case 3
      from kj have "0 < k" "k < j" by simp_all
      with 3 \<open>n < LENGTH(8)\<close> show ?thesis by (auto simp: bit_simps)
    qed
  qed
  from gen [of 1 2] show ?thesis by simp
qed

lemma encode_extract:
  "encode_fields (drop_bit 2 byte1) (destinationBit_of byte1) (wideBit_of byte1)
     (mode_of byte2) (reg_of byte2) (rm_of byte2) = (byte1, byte2)"
  unfolding encode_fields_def destinationBit_of_def wideBit_of_def mode_of_def reg_of_def rm_of_def
  by (simp only: byte1_layout byte2_layout)

section \<open>What a successful call of a state function leaves behind\<close>

lemma InitialState_Inr:
  assumes "InitialState p = Inr (st', p')"
  shows "p' = p \<and> st' \<noteq> Some St_InitialState"
  using assms
  by (auto simp: InitialState_def Let_def split: if_splits sum.splits)

lemma InitialState_Some:
  assumes "InitialState p = Inr (Some st, p')"
  shows "0 \<le> Pointer p \<and> Pointer p + 2 \<le> int (length (Data p))"
  using assms
  by (auto simp: InitialState_def Let_def index_Inr_iff split: if_splits sum.splits)

lemma to_InitialState_Inr:
  "to_InitialState r = Inr (st', p') \<longleftrightarrow> st' = Some St_InitialState \<and> r = Inr p'"
  by (auto simp: to_InitialState_def split: sum.splits)

lemma MemoryMode_Inr:
  assumes "MemoryMode d w reg rm p = Inr p'"
  shows "Data p' = Data p \<and> Pointer p' = Pointer p + 2"
  using assms by (auto simp: MemoryMode_def Let_def split: if_splits)

lemma MemoryMode8BitDisplace_Inr:
  assumes "MemoryMode8BitDisplace d w reg rm p = Inr p'"
  shows "Data p' = Data p \<and> Pointer p' = Pointer p + 3 \<and> Pointer p + 3 \<le> int (length (Data p))"
  using assms
  by (auto simp: MemoryMode8BitDisplace_def Let_def index_Inr_iff split: if_splits sum.splits)

lemma MemoryMode16BitDisplace_Inr:
  assumes "MemoryMode16BitDisplace d w reg rm p = Inr p'"
  shows "Data p' = Data p \<and> Pointer p' = Pointer p + 4 \<and> Pointer p + 4 \<le> int (length (Data p))"
  using assms
  by (auto simp: MemoryMode16BitDisplace_def Let_def index_Inr_iff split: if_splits sum.splits)

lemma RegisterMode_Inr:
  assumes "RegisterMode d w reg rm p = Inr p'"
  shows "Data p' = Data p \<and> Pointer p' = Pointer p + 2"
  using assms by (auto simp: RegisterMode_def Let_def split: if_splits)

lemma RegAndRegOrMemState_Inr:
  assumes "RegAndRegOrMemState p = Inr (st', p')"
  shows "st' = Some St_InitialState \<and> Data p' = Data p \<and> 0 \<le> Pointer p
    \<and> Pointer p + 2 \<le> Pointer p' \<and> Pointer p' \<le> int (length (Data p))"
proof -
  from assms obtain byte1 byte2 where
    b1: "index (Data p) (Pointer p) = Inr byte1" and
    b2: "index (Data p) (Pointer p + 1) = Inr byte2"
    by (auto simp: RegAndRegOrMemState_def split: sum.splits)
  from b1 b2 have rng: "0 \<le> Pointer p" "Pointer p + 2 \<le> int (length (Data p))"
    by (auto simp: index_Inr_iff)
  from mode_of_cases [of byte2] assms b1 b2 rng show ?thesis
    by (auto simp: RegAndRegOrMemState_def Let_def to_InitialState_Inr
        dest!: MemoryMode_Inr MemoryMode8BitDisplace_Inr MemoryMode16BitDisplace_Inr RegisterMode_Inr)
qed

lemma ImmediateToRegisterMovState_Inr:
  assumes "ImmediateToRegisterMovState p = Inr (st', p')"
  shows "st' = Some St_InitialState \<and> Data p' = Data p \<and> 0 \<le> Pointer p
    \<and> Pointer p + 2 \<le> Pointer p' \<and> Pointer p' \<le> int (length (Data p))"
  using assms
  by (auto simp: ImmediateToRegisterMovState_def Let_def index_Inr_iff split: if_splits sum.splits)

lemma InitialState_no_bytes:
  assumes "int (length (Data params)) - Pointer params = 0"
  shows "InitialState params = Inr (None, params)"
  using assms by (simp add: InitialState_def)

lemma InitialState_one_byte:
  assumes "int (length (Data params)) - Pointer params = 1"
  shows "InitialState params = Inl (Errorf ''Trailing byte found'')"
  using assms by (simp add: InitialState_def)

text \<open>
  The whole effect of \<^const>\<open>RegAndRegOrMemState\<close> on an instruction that lies within
  the buffer: \<open>R\<close> is the operand of the REG field, \<open>M\<close> the operand of the R/M field.
\<close>

lemma RegAndRegOrMemState_result:
  assumes ptr: "0 \<le> Pointer p"
    and b1: "byte1 = Data p ! nat (Pointer p)"
    and b2: "byte2 = Data p ! nat (Pointer p + 1)"
    and len: "Pointer p + (if mode_of byte2 = 1 then 3 else if mode_of byte2 = 2 then 4 else 2)
                \<le> int (length (Data p))"
    and R: "R = map_index2 RegisterNames (reg_of byte2) (wideBit_of byte1)"
    and M: "M =
       (if mode_of byte2 = 0 then ''['' @ map_index MemoryEquations (rm_of byte2) @ '']''
        else if mode_of byte2 = 1 then
          ''['' @ map_index MemoryEquations (rm_of byte2) @ '' + ''
            @ fmt_d (unat (Data p ! nat (Pointer p + 2))) @ '']''
        else if mode_of byte2 = 2 then
          ''['' @ map_index MemoryEquations (rm_of byte2) @ '' + ''
            @ fmt_d (unat (Data p ! nat (Pointer p + 2))
                + 256 * unat (Data p ! nat (Pointer p + 3))) @ '']''
        else map_index2 RegisterNames (rm_of byte2) (wideBit_of byte1))"
  shows "RegAndRegOrMemState p =
     Inr (Some St_InitialState, p\<lparr>
       DecodedInstructions :=
         DecodedInstructions p
           @ [if destinationBit_of byte1 = 1 then ''mov '' @ R @ '', '' @ M
              else ''mov '' @ M @ '', '' @ R],
       Pointer :=
         Pointer p + (if mode_of byte2 = 1 then 3 else if mode_of byte2 = 2 then 4 else 2)\<rparr>)"
proof -
  from ptr len have i0: "index (Data p) (Pointer p) = Inr byte1"
    and i1: "index (Data p) (Pointer p + 1) = Inr byte2"
    by (auto simp: index_Inr_iff b1 b2 split: if_splits)
  consider "mode_of byte2 = 0" | "mode_of byte2 = 1" | "mode_of byte2 = 2" | "mode_of byte2 = 3"
    using mode_of_cases [of byte2] by blast
  then show ?thesis
  proof cases
    case 1
    then show ?thesis
      by (simp add: Let_def RegAndRegOrMemState_def i0 i1 to_InitialState_def MemoryMode_def R M)
  next
    case 2
    with ptr len have "index (Data p) (Pointer p + 2) = Inr (Data p ! nat (Pointer p + 2))"
      by (simp add: index_in_range)
    with 2 show ?thesis
      by (simp add: Let_def RegAndRegOrMemState_def i0 i1 to_InitialState_def
          MemoryMode8BitDisplace_def unat_BigEndian_Uint16 R M)
  next
    case 3
    with ptr len have "index (Data p) (Pointer p + 2) = Inr (Data p ! nat (Pointer p + 2))"
      and "index (Data p) (Pointer p + 3) = Inr (Data p ! nat (Pointer p + 3))"
      by (simp_all add: index_in_range)
    with 3 show ?thesis
      by (simp add: Let_def RegAndRegOrMemState_def i0 i1 to_InitialState_def
          MemoryMode16BitDisplace_def unat_BigEndian_Uint16 R M)
  next
    case 4
    then show ?thesis
      by (simp add: Let_def RegAndRegOrMemState_def i0 i1 to_InitialState_def RegisterMode_def R M)
  qed
qed

lemma opcode_classes_disjoint:
  fixes b :: byte
  assumes "drop_bit 4 b = 0b1011"
  shows "drop_bit 2 b \<noteq> 0b100010"
proof
  assume "drop_bit 2 b = 0b100010"
  then have "drop_bit 2 (drop_bit 2 b) = drop_bit 2 (0b100010 :: byte)" by simp
  then have "drop_bit 4 b = drop_bit 2 (0b100010 :: byte)" by (simp add: drop_bit_drop_bit)
  with assms show False by simp
qed

lemma InitialState_mov:
  assumes "0 \<le> Pointer p" and "Pointer p + 2 \<le> int (length (Data p))"
    and "drop_bit 2 (Data p ! nat (Pointer p)) = 0b100010"
  shows "InitialState p = Inr (Some St_RegAndRegOrMemState, p)"
  using assms by (simp add: InitialState_def index_in_range)

lemma InitialState_immediate:
  assumes "0 \<le> Pointer p" and "Pointer p + 2 \<le> int (length (Data p))"
    and "drop_bit 4 (Data p ! nat (Pointer p)) = 0b1011"
  shows "InitialState p = Inr (Some St_ImmediateToRegisterMovState, p)"
  using assms opcode_classes_disjoint [OF assms(3)]
  by (simp add: InitialState_def index_in_range xor_eq_0_iff_byte)

text \<open>The whole effect of \<^const>\<open>ImmediateToRegisterMovState\<close>, likewise.\<close>

lemma ImmediateToRegisterMovState_result:
  assumes ptr: "0 \<le> Pointer p"
    and b1: "byte1 = Data p ! nat (Pointer p)"
    and w: "wideBit = drop_bit 3 byte1 AND 1"
    and len: "Pointer p + (if wideBit = 1 then 3 else 2) \<le> int (length (Data p))"
    and imm: "imm = (if wideBit = 1
        then unat (Data p ! nat (Pointer p + 1)) + 256 * unat (Data p ! nat (Pointer p + 2))
        else unat (Data p ! nat (Pointer p + 1)))"
  shows "ImmediateToRegisterMovState p =
     Inr (Some St_InitialState, p\<lparr>
       DecodedInstructions :=
         DecodedInstructions p
           @ [''mov '' @ map_index2 RegisterNames (drop_bit 0 byte1 AND 0b111) wideBit
                @ '', '' @ fmt_d imm],
       Pointer := Pointer p + (if wideBit = 1 then 3 else 2)\<rparr>)"
proof -
  from ptr len have i0: "index (Data p) (Pointer p) = Inr byte1"
    and i1: "index (Data p) (Pointer p + 1) = Inr (Data p ! nat (Pointer p + 1))"
    by (auto simp: index_Inr_iff b1 split: if_splits)
  show ?thesis
  proof (cases "wideBit = 1")
    case True
    with ptr len have "index (Data p) (Pointer p + 2) = Inr (Data p ! nat (Pointer p + 2))"
      by (simp add: index_in_range)
    with True show ?thesis
      using w by (simp add: Let_def ImmediateToRegisterMovState_def i0 i1 imm
          unat_BigEndian_Uint16)
  next
    case False
    then show ?thesis
      using w by (simp add: Let_def ImmediateToRegisterMovState_def i0 i1 imm
          unat_BigEndian_Uint16)
  qed
qed

section \<open>The loop ends\<close>

lemma Decode_loop_terminates: "\<exists>r. Decode_loop state params = Some r"
proof (induction
    "2 * nat (int (length (Data params)) - Pointer params)
       + (if state = Some St_InitialState then 1 else 0 :: nat)"
    arbitrary: state params rule: less_induct)
  case less
  show ?case
  proof (cases state)
    case None
    then show ?thesis by (simp add: Decode_loop_None)
  next
    case (Some st)
    show ?thesis
    proof (cases "call_state st params")
      case (Inl e)
      with Some show ?thesis by (simp add: Decode_loop_Some)
    next
      case (Inr r)
      obtain st' p' where r: "r = (st', p')" by (cases r)
      from Some Inr r have unfold: "Decode_loop state params = Decode_loop st' p'"
        by (simp add: Decode_loop_Some)
      have "2 * nat (int (length (Data p')) - Pointer p')
              + (if st' = Some St_InitialState then 1 else 0 :: nat)
            < 2 * nat (int (length (Data params)) - Pointer params)
              + (if state = Some St_InitialState then 1 else 0 :: nat)"
      proof (cases st)
        case St_InitialState
        with Inr r have "InitialState params = Inr (st', p')"
          by (simp add: call_state_def)
        from InitialState_Inr [OF this] Some St_InitialState show ?thesis by simp
      next
        case St_RegAndRegOrMemState
        with Inr r have "RegAndRegOrMemState params = Inr (st', p')"
          by (simp add: call_state_def)
        from RegAndRegOrMemState_Inr [OF this] Some St_RegAndRegOrMemState show ?thesis
          by auto
      next
        case St_ImmediateToRegisterMovState
        with Inr r have "ImmediateToRegisterMovState params = Inr (st', p')"
          by (simp add: call_state_def)
        from ImmediateToRegisterMovState_Inr [OF this] Some St_ImmediateToRegisterMovState
        show ?thesis by auto
      qed
      from less [OF this] unfold show ?thesis by simp
    qed
  qed
qed

section \<open>Truncated instructions\<close>

text \<open>
  C1 asks that a variant which needs more bytes than remain is reported as a truncation
  error. The three inputs of the claim are evaluated here: a mode-01 move with 2 bytes,
  a mode-10 move with 3 bytes and a wide immediate move with 2 bytes. In each the
  resolver indexes the buffer at its length, and the call ends in the run-time panic of
  that indexing expression, not in the \<^verbatim>\<open>Trailing byte found\<close> error that
  \<^const>\<open>InitialState\<close> returns for one remaining byte.
\<close>

theorem C1_truncated_variant_panics:
  "Decode [0b10001011, 0b01000000] = Some (Inl (IndexOutOfRange 2 2))
   \<and> Decode [0b10001011, 0b10000000, 0b00000001] = Some (Inl (IndexOutOfRange 3 3))
   \<and> Decode [0b10111000, 0b00000001] = Some (Inl (IndexOutOfRange 2 2))"
  by (simp add: decoder_defs Decode_loop_Some Decode_loop_None)

section \<open>A concrete memory-mode instruction\<close>

text \<open>
  C2, as stated: the two bytes \<open>0b10001011, 0b00000000\<close> decode to the one line
  \<^verbatim>\<open>mov al, [bx + si]\<close>. The statement fails: the lowest bit of the first byte is the
  width bit and it is 1, which selects the 16-bit column of the register table.
\<close>

theorem C2_mov_al_counterexample:
  "Decode [0b10001011, 0b00000000] \<noteq> Some (Inr [''mov al, [bx + si]''])"
  by (simp add: decoder_defs Decode_loop_Some Decode_loop_None)

text \<open>
  C2, amended: decoding the two bytes \<open>0b10001011, 0b00000000\<close> succeeds and produces
  exactly one output line, the text \<^verbatim>\<open>mov ax, [bx + si]\<close>.
\<close>

theorem C2_mov_ax_bx_si:
  "Decode [0b10001011, 0b00000000] = Some (Inr [''mov ax, [bx + si]''])"
  by (simp add: decoder_defs Decode_loop_Some Decode_loop_None)

section \<open>Register/memory moves\<close>






section \<open>Immediate-to-register moves\<close>

text \<open>
  C4: for every immediate-to-register instruction (top 4 bits 1011) that lies within the
  buffer: if the width bit (bit 3) is 0 the immediate is the one trailing byte, at most
  255, and 2 bytes are consumed; if it is 1 the immediate is the two trailing bytes read
  little-endian, at most 65535, and 3 bytes are consumed. The decimal text appended to
  the line denotes exactly that value.
\<close>

theorem C4_immediate_to_register:
  fixes params :: DecoderParams
  defines "byte1 \<equiv> Data params ! nat (Pointer params)"
  defines "wideBit \<equiv> drop_bit 3 byte1 AND 0b1"
  defines "imm \<equiv>
     (if wideBit = 1
      then unat (Data params ! nat (Pointer params + 1))
             + 256 * unat (Data params ! nat (Pointer params + 2))
      else unat (Data params ! nat (Pointer params + 1)))"
  assumes "0 \<le> Pointer params"
    and "Pointer params + (if wideBit = 1 then 3 else 2) \<le> int (length (Data params))"
    and "drop_bit 4 byte1 = 0b1011"
  shows "InitialState params = Inr (Some St_ImmediateToRegisterMovState, params)
     \<and> ImmediateToRegisterMovState params =
         Inr (Some St_InitialState, params\<lparr>
           DecodedInstructions :=
             DecodedInstructions params
               @ [''mov '' @ map_index2 RegisterNames (drop_bit 0 byte1 AND 0b111) wideBit
                    @ '', '' @ fmt_d imm],
           Pointer := Pointer params + (if wideBit = 1 then 3 else 2)\<rparr>)
     \<and> digits_value 10 (fmt_d imm) = imm
     \<and> imm \<le> (if wideBit = 1 then 65535 else 255)
     \<and> wideBit \<in> {0, 1}"
proof (intro conjI)
  from assms(4-6) show "InitialState params = Inr (Some St_ImmediateToRegisterMovState, params)"
    by (intro InitialState_immediate) (simp_all add: byte1_def split: if_splits)
  from assms(4,5) show "ImmediateToRegisterMovState params =
         Inr (Some St_InitialState, params\<lparr>
           DecodedInstructions :=
             DecodedInstructions params
               @ [''mov '' @ map_index2 RegisterNames (drop_bit 0 byte1 AND 0b111) wideBit
                    @ '', '' @ fmt_d imm],
           Pointer := Pointer params + (if wideBit = 1 then 3 else 2)\<rparr>)"
    by (intro ImmediateToRegisterMovState_result) (simp_all add: byte1_def wideBit_def imm_def)
  show "digits_value 10 (fmt_d imm) = imm" by (rule fmt_d_value)
  show "imm \<le> (if wideBit = 1 then 65535 else 255)"
    using unat_byte_less [of "Data params ! nat (Pointer params + 1)"]
      unat_byte_less [of "Data params ! nat (Pointer params + 2)"]
    by (simp add: imm_def)
  show "wideBit \<in> {0, 1}"
    using byte_and_1_cases [of "drop_bit 3 byte1"] by (auto simp: wideBit_def)
qed

theorem C4_immediate_to_register_witness:
  "InitialState \<lparr>Data = [0b10111001, 0x2C, 0x01], Pointer = 0, DecodedInstructions = []\<rparr>
     = Inr (Some St_ImmediateToRegisterMovState,
         \<lparr>Data = [0b10111001, 0x2C, 0x01], Pointer = 0, DecodedInstructions = []\<rparr>)
   \<and> ImmediateToRegisterMovState
       \<lparr>Data = [0b10111001, 0x2C, 0x01], Pointer = 0, DecodedInstructions = []\<rparr>
     = Inr (Some St_InitialState,
         \<lparr>Data = [0b10111001, 0x2C, 0x01], Pointer = 3,
          DecodedInstructions = [''mov cx, 300'']\<rparr>)
   \<and> digits_value 10 ''300'' = 300
   \<and> InitialState \<lparr>Data = [0b10110001, 0xFF], Pointer = 0, DecodedInstructions = []\<rparr>
     = Inr (Some St_ImmediateToRegisterMovState,
         \<lparr>Data = [0b10110001, 0xFF], Pointer = 0, DecodedInstructions = []\<rparr>)
   \<and> ImmediateToRegisterMovState
       \<lparr>Data = [0b10110001, 0xFF], Pointer = 0, DecodedInstructions = []\<rparr>
     = Inr (Some St_InitialState,
         \<lparr>Data = [0b10110001, 0xFF], Pointer = 2,
          DecodedInstructions = [''mov cl, 255'']\<rparr>)"
  using C4_immediate_to_register [of
      "\<lparr>Data = [0b10111001, 0x2C, 0x01], Pointer = 0, DecodedInstructions = []\<rparr>"]
    C4_immediate_to_register [of
      "\<lparr>Data = [0b10110001, 0xFF], Pointer = 0, DecodedInstructions = []\<rparr>"]
  by (simp add: map_index_def map_index2_def RegisterNames_def fmt_d.simps digit_char_def)

section \<open>The start of an instruction\<close>

text \<open>
  C6: when the driver is at the start of an instruction and zero bytes remain, decoding
  ends successfully with the lines accumulated so far; in particular the empty buffer
  gives the empty output and no error. When exactly one byte remains, decoding ends
  with the error \<^verbatim>\<open>Trailing byte found\<close> and returns no output.
\<close>

theorem C6_start_of_instruction:
  "(int (length (Data params)) - Pointer params = 0 \<longrightarrow>
      Decode_loop (Some St_InitialState) params = Some (Inr (DecodedInstructions params)))
   \<and> Decode [] = Some (Inr [])
   \<and> (int (length (Data params1)) - Pointer params1 = 1 \<longrightarrow>
      Decode_loop (Some St_InitialState) params1
        = Some (Inl (Errorf ''Trailing byte found'')))"
  by (simp add: Decode_def Decode_loop_Some Decode_loop_None call_state_def
      InitialState_no_bytes InitialState_one_byte)

theorem C6_start_of_instruction_witness:
  "Decode_loop (Some St_InitialState)
     \<lparr>Data = [0b10001001, 0b11011001], Pointer = 2,
      DecodedInstructions = [''mov cx, bx'']\<rparr> = Some (Inr [''mov cx, bx''])
   \<and> Decode_loop (Some St_InitialState)
     \<lparr>Data = [0b10001001, 0b11011001, 0b10001001], Pointer = 2,
      DecodedInstructions = [''mov cx, bx'']\<rparr> = Some (Inl (Errorf ''Trailing byte found''))"
  using C6_start_of_instruction [of
      "\<lparr>Data = [0b10001001, 0b11011001], Pointer = 2,
        DecodedInstructions = [''mov cx, bx'']\<rparr>"
      "\<lparr>Data = [0b10001001, 0b11011001, 0b10001001], Pointer = 2,
        DecodedInstructions = [''mov cx, bx'']\<rparr>"]
  by simp

section \<open>Unknown opcodes\<close>

text \<open>
  C7: with at least 2 bytes remaining at the start of an instruction, if the top 6 bits
  of the next byte are not 100010 and its top 4 bits are not 1011, decoding ends at once
  with the error \<^verbatim>\<open>Unknown opcode: \<close> followed by the byte in binary (a digit string
  whose value in base 2 is the byte), and returns no output.
\<close>

theorem C7_unknown_opcode:
  fixes params :: DecoderParams
  defines "nextByte \<equiv> Data params ! nat (Pointer params)"
  assumes "0 \<le> Pointer params"
    and "Pointer params + 2 \<le> int (length (Data params))"
    and "drop_bit 2 nextByte \<noteq> 0b100010"
    and "drop_bit 4 nextByte \<noteq> 0b1011"
  shows "Decode_loop (Some St_InitialState) params
           = Some (Inl (Errorf (''Unknown opcode: '' @ fmt_b (unat nextByte))))
         \<and> digits_value 2 (fmt_b (unat nextByte)) = unat nextByte"
  using assms
  by (simp add: Decode_loop_Some call_state_def InitialState_def index_in_range
      xor_eq_0_iff_byte fmt_b_value)

theorem C7_unknown_opcode_witness:
  "Decode_loop (Some St_InitialState)
     \<lparr>Data = [0b10001001, 0b11011001, 0b11000110, 0b00000000], Pointer = 2,
      DecodedInstructions = [''mov cx, bx'']\<rparr>
     = Some (Inl (Errorf ''Unknown opcode: 11000110''))
   \<and> digits_value 2 ''11000110'' = unat (0b11000110 :: byte)"
  using C7_unknown_opcode [of
      "\<lparr>Data = [0b10001001, 0b11011001, 0b11000110, 0b00000000], Pointer = 2,
        DecodedInstructions = [''mov cx, bx'']\<rparr>"]
  by (simp add: fmt_b.simps digit_char_def)

section \<open>Termination\<close>

text \<open>
  C8: for every finite input buffer the decode state machine terminates, in success or
  in an error: \<^const>\<open>Decode\<close> returns a result on every input, and so does the loop
  from any state and any parameters. Every decode step that goes on (the dispatch by
  \<^const>\<open>InitialState\<close> followed by the call of the state it chose, when neither fails)
  advances the cursor by at least 2 bytes, leaves it within the buffer length and
  leaves the buffer as it was.
\<close>

theorem C8_decode_terminates:
  "(\<exists>r. Decode input = Some r)
   \<and> (\<exists>r. Decode_loop state params = Some r)
   \<and> (InitialState params = Inr (Some st, params1) \<longrightarrow>
        call_state st params1 = Inr (state', params') \<longrightarrow>
          Pointer params + 2 \<le> Pointer params'
          \<and> Pointer params' \<le> int (length (Data params'))
          \<and> Data params' = Data params)"
proof (intro conjI impI)
  show "\<exists>r. Decode input = Some r"
    unfolding Decode_def by (rule Decode_loop_terminates)
  show "\<exists>r. Decode_loop state params = Some r"
    by (rule Decode_loop_terminates)
next
  assume init: "InitialState params = Inr (Some st, params1)"
    and call: "call_state st params1 = Inr (state', params')"
  from InitialState_Inr [OF init] have p1: "params1 = params" and st: "st \<noteq> St_InitialState"
    by simp_all
  from st call p1 have "Pointer params + 2 \<le> Pointer params'
      \<and> Pointer params' \<le> int (length (Data params)) \<and> Data params' = Data params"
    by (cases st)
      (auto simp: call_state_def dest!: RegAndRegOrMemState_Inr ImmediateToRegisterMovState_Inr)
  then show "Pointer params + 2 \<le> Pointer params'"
    and "Pointer params' \<le> int (length (Data params'))"
    and "Data params' = Data params"
    by simp_all
qed

theorem C8_decode_terminates_witness:
  "InitialState \<lparr>Data = [0b10001011, 0b01000000, 7], Pointer = 0, DecodedInstructions = []\<rparr>
     = Inr (Some St_RegAndRegOrMemState,
         \<lparr>Data = [0b10001011, 0b01000000, 7], Pointer = 0, DecodedInstructions = []\<rparr>)
   \<and> call_state St_RegAndRegOrMemState
         \<lparr>Data = [0b10001011, 0b01000000, 7], Pointer = 0, DecodedInstructions = []\<rparr>
     = Inr (Some St_InitialState,
         \<lparr>Data = [0b10001011, 0b01000000, 7], Pointer = 3,
          DecodedInstructions = [''mov ax, [bx + si + 7]'']\<rparr>)
   \<and> (0::int) + 2 \<le> 3 \<and> (3::int) \<le> int (length [0b10001011, 0b01000000, 7 :: byte])
   \<and> (\<exists>r. Decode [0b10001011, 0b01000000, 7] = Some r)"
  using C8_decode_terminates [of "[0b10001011, 0b01000000, 7]" "Some St_InitialState"
      "\<lparr>Data = [0b10001011, 0b01000000, 7], Pointer = 0, DecodedInstructions = []\<rparr>"
      St_RegAndRegOrMemState
      "\<lparr>Data = [0b10001011, 0b01000000, 7], Pointer = 0, DecodedInstructions = []\<rparr>"
      "Some St_InitialState"
      "\<lparr>Data = [0b10001011, 0b01000000, 7], Pointer = 3,
        DecodedInstructions = [''mov ax, [bx + si + 7]'']\<rparr>"]
  by (simp add: decoder_defs fmt_d.simps)

section \<open>Round trip over the fields\<close>

text \<open>
  C9: for every two-byte register-to-register encoding (opcode bits 100010, mode 11),
  extracting the direction bit, the width bit, the mode, the reg id and the r/m id and
  writing them back by the documented layout gives the two bytes again.
\<close>

theorem C9_field_roundtrip:
  assumes "drop_bit 2 byte1 = 0b100010" and "mode_of byte2 = 0b11"
  shows "encode_fields 0b100010 (destinationBit_of byte1) (wideBit_of byte1)
           (mode_of byte2) (reg_of byte2) (rm_of byte2) = (byte1, byte2)"
  using encode_extract [of byte1 byte2] assms by simp

theorem C9_field_roundtrip_witness:
  "drop_bit 2 (0b10001001 :: byte) = 0b100010 \<and> mode_of 0b11011001 = 0b11
   \<and> destinationBit_of 0b10001001 = 0 \<and> wideBit_of 0b10001001 = 1
   \<and> reg_of 0b11011001 = 0b011 \<and> rm_of 0b11011001 = 0b001
   \<and> encode_fields 0b100010 0 1 0b11 0b011 0b001 = (0b10001001, 0b11011001)"
  using C9_field_roundtrip [of "0b10001001" "0b11011001"]
  by (simp add: destinationBit_of_def wideBit_of_def mode_of_def reg_of_def rm_of_def)

section \<open>The two decoders on register-to-register moves\<close>

lemma Decode_loop_regonly_None:
  "Decode_loop_regonly None params = Some (Inr (DecodedInstructions params))"
  by (subst Decode_loop_regonly.simps) simp

lemma Decode_loop_regonly_Some:
  "Decode_loop_regonly (Some st) params =
     (case call_state_regonly st params of
        Inl err \<Rightarrow> Some (Inl err)
      | Inr (state', params') \<Rightarrow> Decode_loop_regonly state' params')"
  by (subst Decode_loop_regonly.simps) simp

text \<open>One register-to-register move, decoded by either program.\<close>

lemma Decode_loop_reg_to_reg:
  assumes "0 \<le> Pointer p" and "Pointer p + 2 \<le> int (length (Data p))"
    and "byte1 = Data p ! nat (Pointer p)" and "byte2 = Data p ! nat (Pointer p + 1)"
    and "drop_bit 2 byte1 = 0b100010" and "mode_of byte2 = 0b11"
  shows "Decode_loop (Some St_InitialState) p =
     Decode_loop (Some St_InitialState) (p\<lparr>
       DecodedInstructions :=
         DecodedInstructions p
           @ [if destinationBit_of byte1 = 1
              then ''mov '' @ map_index2 RegisterNames (reg_of byte2) (wideBit_of byte1)
                @ '', '' @ map_index2 RegisterNames (rm_of byte2) (wideBit_of byte1)
              else ''mov '' @ map_index2 RegisterNames (rm_of byte2) (wideBit_of byte1)
                @ '', '' @ map_index2 RegisterNames (reg_of byte2) (wideBit_of byte1)],
       Pointer := Pointer p + 2\<rparr>)"
proof -
  from assms have init: "InitialState p = Inr (Some St_RegAndRegOrMemState, p)"
    by (intro InitialState_mov) simp_all
  from assms have "RegAndRegOrMemState p = Inr (Some St_InitialState, p\<lparr>
       DecodedInstructions :=
         DecodedInstructions p
           @ [if destinationBit_of byte1 = 1
              then ''mov '' @ map_index2 RegisterNames (reg_of byte2) (wideBit_of byte1)
                @ '', '' @ map_index2 RegisterNames (rm_of byte2) (wideBit_of byte1)
              else ''mov '' @ map_index2 RegisterNames (rm_of byte2) (wideBit_of byte1)
                @ '', '' @ map_index2 RegisterNames (reg_of byte2) (wideBit_of byte1)],
       Pointer := Pointer p + 2\<rparr>)"
    by (subst RegAndRegOrMemState_result [OF assms(1,3,4) _ refl refl]) simp_all
  with init show ?thesis
    by (simp add: Decode_loop_Some [of St_InitialState p]
        Decode_loop_Some [of St_RegAndRegOrMemState p] call_state_def)
qed

lemma Decode_loop_regonly_reg_to_reg:
  assumes "0 \<le> Pointer p" and "Pointer p + 2 \<le> int (length (Data p))"
    and "byte1 = Data p ! nat (Pointer p)" and "byte2 = Data p ! nat (Pointer p + 1)"
    and "drop_bit 2 byte1 = 0b100010"
  shows "Decode_loop_regonly (Some St_InitialState_regonly) p =
     Decode_loop_regonly (Some St_InitialState_regonly) (p\<lparr>
       DecodedInstructions :=
         DecodedInstructions p
           @ [if destinationBit_of byte1 = 1
              then ''mov '' @ map_index2 RegisterNames (reg_of byte2) (wideBit_of byte1)
                @ '', '' @ map_index2 RegisterNames (rm_of byte2) (wideBit_of byte1)
              else ''mov '' @ map_index2 RegisterNames (rm_of byte2) (wideBit_of byte1)
                @ '', '' @ map_index2 RegisterNames (reg_of byte2) (wideBit_of byte1)],
       Pointer := Pointer p + 2\<rparr>)"
proof -
  from assms have init: "InitialState_regonly p = Inr (Some St_RegisterToRegisterMovState, p)"
    by (simp add: InitialState_regonly_def)
  from assms have "index (Data p) (Pointer p) = Inr byte1"
    and "index (Data p) (Pointer p + 1) = Inr byte2"
    by (simp_all add: index_in_range)
  with assms(5) have "RegisterToRegisterMovState p = Inr (Some St_InitialState_regonly, p\<lparr>
       DecodedInstructions :=
         DecodedInstructions p
           @ [if destinationBit_of byte1 = 1
              then ''mov '' @ map_index2 RegisterNames (reg_of byte2) (wideBit_of byte1)
                @ '', '' @ map_index2 RegisterNames (rm_of byte2) (wideBit_of byte1)
              else ''mov '' @ map_index2 RegisterNames (rm_of byte2) (wideBit_of byte1)
                @ '', '' @ map_index2 RegisterNames (reg_of byte2) (wideBit_of byte1)],
       Pointer := Pointer p + 2\<rparr>)"
    by (simp add: RegisterToRegisterMovState_def Let_def)
  with init show ?thesis
    by (simp add: Decode_loop_regonly_Some [of St_InitialState_regonly p]
        Decode_loop_regonly_Some [of St_RegisterToRegisterMovState p] call_state_regonly_def)
qed

lemma encode_pairs_Cons:
  "encode_pairs ((byte1, byte2) # instrs) = byte1 # byte2 # encode_pairs instrs"
  by (simp add: encode_pairs_def)

lemma decoders_agree_from:
  assumes "\<forall>(byte1, byte2) \<in> set instrs. drop_bit 2 byte1 = 0b100010 \<and> mode_of byte2 = 0b11"
    and "Data p = pre @ encode_pairs instrs"
    and "Pointer p = int (length pre)"
  shows "\<exists>lines. length lines = length instrs
     \<and> Decode_loop (Some St_InitialState) p = Some (Inr (DecodedInstructions p @ lines))
     \<and> Decode_loop_regonly (Some St_InitialState_regonly) p
         = Some (Inr (DecodedInstructions p @ lines))"
  using assms
proof (induction instrs arbitrary: p pre)
  case Nil
  then have "int (length (Data p)) - Pointer p = 0" by (simp add: encode_pairs_def)
  then have "Decode_loop (Some St_InitialState) p = Some (Inr (DecodedInstructions p))"
    and "Decode_loop_regonly (Some St_InitialState_regonly) p
           = Some (Inr (DecodedInstructions p))"
    by (simp_all add: Decode_loop_Some Decode_loop_None call_state_def InitialState_no_bytes
        Decode_loop_regonly_Some Decode_loop_regonly_None call_state_regonly_def
        InitialState_regonly_def)
  then show ?case by simp
next
  case (Cons instr instrs)
  obtain byte1 byte2 where instr: "instr = (byte1, byte2)" by (cases instr)
  from Cons.prems(1) instr have op: "drop_bit 2 byte1 = 0b100010" and mode: "mode_of byte2 = 0b11"
    and rest: "\<forall>(byte1, byte2) \<in> set instrs. drop_bit 2 byte1 = 0b100010 \<and> mode_of byte2 = 0b11"
    by simp_all
  from Cons.prems(2) instr have data: "Data p = pre @ byte1 # byte2 # encode_pairs instrs"
    by (simp add: encode_pairs_Cons)
  have ptr: "0 \<le> Pointer p" "Pointer p + 2 \<le> int (length (Data p))"
    using Cons.prems(3) data by simp_all
  have b1: "byte1 = Data p ! nat (Pointer p)"
    using Cons.prems(3) data by simp
  have "nat (Pointer p + 1) = Suc (length pre)"
    using Cons.prems(3) by simp
  then have b2: "byte2 = Data p ! nat (Pointer p + 1)"
    using data by (simp add: nth_append)
  define line where "line =
    (if destinationBit_of byte1 = 1
     then ''mov '' @ map_index2 RegisterNames (reg_of byte2) (wideBit_of byte1)
       @ '', '' @ map_index2 RegisterNames (rm_of byte2) (wideBit_of byte1)
     else ''mov '' @ map_index2 RegisterNames (rm_of byte2) (wideBit_of byte1)
       @ '', '' @ map_index2 RegisterNames (reg_of byte2) (wideBit_of byte1))"
  define p' where "p' = p\<lparr>DecodedInstructions := DecodedInstructions p @ [line],
    Pointer := Pointer p + 2\<rparr>"
  have step: "Decode_loop (Some St_InitialState) p = Decode_loop (Some St_InitialState) p'"
    unfolding p'_def line_def by (rule Decode_loop_reg_to_reg [OF ptr b1 b2 op mode])
  have step_regonly: "Decode_loop_regonly (Some St_InitialState_regonly) p
      = Decode_loop_regonly (Some St_InitialState_regonly) p'"
    unfolding p'_def line_def by (rule Decode_loop_regonly_reg_to_reg [OF ptr b1 b2 op])
  have "Data p' = (pre @ [byte1, byte2]) @ encode_pairs instrs"
    and "Pointer p' = int (length (pre @ [byte1, byte2]))"
    using data Cons.prems(3) by (simp_all add: p'_def)
  from Cons.IH [OF rest this] obtain lines where
    "length lines = length instrs"
    and "Decode_loop (Some St_InitialState) p' = Some (Inr (DecodedInstructions p' @ lines))"
    and "Decode_loop_regonly (Some St_InitialState_regonly) p'
           = Some (Inr (DecodedInstructions p' @ lines))"
    by blast
  with step step_regonly have "length (line # lines) = length (instr # instrs)
     \<and> Decode_loop (Some St_InitialState) p = Some (Inr (DecodedInstructions p @ line # lines))
     \<and> Decode_loop_regonly (Some St_InitialState_regonly) p
         = Some (Inr (DecodedInstructions p @ line # lines))"
    by (simp add: p'_def)
  then show ?case by blast
qed

text \<open>
  C10: on every input buffer that is a concatenation of two-byte register-to-register
  move instructions (each with opcode bits 100010 and mode bits 11), the multi-variant
  decoder and the earlier register-only decoder return the same result, and that
  result is a normal return with one line for each instruction.
\<close>

theorem C10_decoders_agree:
  assumes "\<forall>(byte1, byte2) \<in> set instrs. drop_bit 2 byte1 = 0b100010 \<and> mode_of byte2 = 0b11"
  shows "Decode (encode_pairs instrs) = Decode_regonly (encode_pairs instrs)
     \<and> (\<exists>lines. length lines = length instrs
           \<and> Decode (encode_pairs instrs) = Some (Inr lines))"
  using decoders_agree_from [OF assms, of
      "\<lparr>Data = encode_pairs instrs, Pointer = 0, DecodedInstructions = []\<rparr>" "[]"]
  by (auto simp: Decode_def Decode_regonly_def)

theorem C10_decoders_agree_witness:
  "Decode [0b10001001, 0b11011001, 0b10001010, 0b11000111]
     = Decode_regonly [0b10001001, 0b11011001, 0b10001010, 0b11000111]
   \<and> Decode_regonly [0b10001001, 0b11011001, 0b10001010, 0b11000111]
     = Some (Inr [''mov cx, bx'', ''mov al, bh''])"
proof -
  have "Decode [0b10001001, 0b11011001, 0b10001010, 0b11000111]
      = Some (Inr [''mov cx, bx'', ''mov al, bh''])"
    by (simp add: decoder_defs Decode_loop_Some Decode_loop_None)
  with C10_decoders_agree [of "[(0b10001001, 0b11011001), (0b10001010, 0b11000111)]"]
  show ?thesis
    by (simp add: encode_pairs_def mode_of_def)
qed

end
